theory Spec2Isabelle
  imports Complex_Main
begin

section \<open>The random source\<close>

text \<open>
  \<^verbatim>\<open>np.random.uniform(low, high, size)\<close> reads numpy's global generator. The generator is
  the stream of unit draws it will hand out next; drawing \<open>n\<close> values uses up the first
  \<open>n\<close> of them. Each value is \<open>low + (high - low) * u\<close>, numpy's own formula, over the
  reals.
\<close>

type_synonym rng = "nat \<Rightarrow> real"

definition np_random_uniform :: "real \<Rightarrow> real \<Rightarrow> nat \<Rightarrow> rng \<Rightarrow> real list \<times> rng" where
  "np_random_uniform low high n r =
     (map (\<lambda>k. low + (high - low) * r k) [0..<n], \<lambda>k. r (k + n))"

section \<open>Lazy streams: generators and tf.data pipelines\<close>

text \<open>
  A Python generator object and a \<^verbatim>\<open>tf.data\<close> iterator are both pulled one element at a
  time. A stream is the state a fresh iterator starts in and the step that hands out the
  next element, or \<open>None\<close> when the iterator has ended. The step threads the random
  source, so a sample is drawn only when it is asked for.
\<close>

record ('e, 's) dataset =
  make_iterator :: 's
  get_next :: "'s \<Rightarrow> rng \<Rightarrow> ('e \<times> 's \<times> rng) option"

text \<open>
  What can be raised: TensorFlow's \<^verbatim>\<open>InvalidArgumentError\<close>, and whatever the model's
  \<^verbatim>\<open>fit\<close> or \<^verbatim>\<open>evaluate\<close> raises.
\<close>

datatype error = InvalidArgumentError | ModelError string

text \<open>A consumer that asks an iterator for up to \<open>n\<close> elements and stops at its end.\<close>

fun pull :: "('s \<Rightarrow> rng \<Rightarrow> ('e \<times> 's \<times> rng) option) \<Rightarrow> nat \<Rightarrow> 's \<Rightarrow> rng \<Rightarrow> 'e list \<times> 's \<times> rng" where
  "pull nxt 0 s r = ([], s, r)"
| "pull nxt (Suc n) s r =
     (case nxt s r of
        None \<Rightarrow> ([], s, r)
      | Some (e, s', r') \<Rightarrow>
          (case pull nxt n s' r' of (es, s'', r'') \<Rightarrow> (e # es, s'', r'')))"

text \<open>The first \<open>n\<close> elements of a fresh iteration over a stream, and the random source left.\<close>

definition take_from :: "('e, 's) dataset \<Rightarrow> nat \<Rightarrow> rng \<Rightarrow> 'e list \<times> rng" where
  "take_from d n r =
     (case pull (get_next d) n (make_iterator d) r of (es, s, r') \<Rightarrow> (es, r'))"

text \<open>
  \<^verbatim>\<open>tf.data.Dataset.from_generator(g, args=[a])\<close>: every iteration calls \<open>g a\<close> anew and
  pulls from the generator object it returns.
\<close>

definition from_generator :: "('a \<Rightarrow> ('e, 's) dataset) \<Rightarrow> 'a \<Rightarrow> ('e, 's) dataset" where
  "from_generator g a = \<lparr>make_iterator = make_iterator (g a), get_next = get_next (g a)\<rparr>"

text \<open>
  \<^verbatim>\<open>.batch(batch_size)\<close> groups consecutive elements, the last group possibly shorter
  (\<^verbatim>\<open>drop_remainder\<close> is not set). TensorFlow rejects a batch size that is not positive
  when the pipeline is built.
\<close>

definition batch :: "int \<Rightarrow> ('e, 's) dataset \<Rightarrow> error + ('e list, 's) dataset" where
  "batch batch_size d =
     (if batch_size \<le> 0 then Inl InvalidArgumentError
      else Inr \<lparr>make_iterator = make_iterator d,
                get_next = (\<lambda>s r. case pull (get_next d) (nat batch_size) s r of
                                     (es, s', r') \<Rightarrow> if es = [] then None else Some (es, s', r'))\<rparr>)"

text \<open>
  \<^verbatim>\<open>.repeat()\<close>: when the input ends, a new iterator over the input is made and the
  stream goes on. The flag records that no element of the current pass has been handed
  out yet; an input that ends on such a first call ends the repeated stream too.
\<close>

definition repeat :: "('e, 's) dataset \<Rightarrow> ('e, 's \<times> bool) dataset" where
  "repeat d =
     \<lparr>make_iterator = (make_iterator d, True),
      get_next = (\<lambda>(s, first_call) r.
        case get_next d s r of
          Some (e, s', r') \<Rightarrow> Some (e, (s', False), r')
        | None \<Rightarrow>
            if first_call then None
            else (case get_next d (make_iterator d) r of
                    Some (e, s', r') \<Rightarrow> Some (e, (s', False), r')
                  | None \<Rightarrow> None))\<rparr>"

section \<open>FunctionApproximationTask: the data generator\<close>

text \<open>
  \<^verbatim>\<open>data_generator(self, max_samples)\<close> reads \<^verbatim>\<open>self.x_lim\<close>,
  \<^verbatim>\<open>self.independent_variables\<close>, \<^verbatim>\<open>self.data_fn\<close> and \<^verbatim>\<open>self.input_data_fn\<close>; they are
  the first four arguments here. The generator object starts with \<open>i = 0\<close>; one
  resumption tests \<open>i < max_samples\<close>, draws \<open>x\<close>, yields \<open>(input_data_fn x, data_fn x)\<close>
  and counts. \<open>independent_variables\<close> is a number of components, a \<open>nat\<close>.
\<close>

definition data_generator ::
  "real \<times> real \<Rightarrow> nat \<Rightarrow> (real list \<Rightarrow> real) \<Rightarrow> (real list \<Rightarrow> 'i) \<Rightarrow> int \<Rightarrow> ('i \<times> real, int) dataset" where
  "data_generator x_lim independent_variables data_fn input_data_fn max_samples =
     \<lparr>make_iterator = 0,
      get_next = (\<lambda>i r.
        if i < max_samples then
          (case np_random_uniform (fst x_lim) (snd x_lim) independent_variables r of
             (x, r') \<Rightarrow> let y = data_fn x in Some ((input_data_fn x, y), i + 1, r'))
        else None)\<rparr>"

text \<open>Running a generator object to its end: \<^verbatim>\<open>next\<close> until \<^verbatim>\<open>StopIteration\<close>.\<close>

function run_data_generator ::
  "real \<times> real \<Rightarrow> nat \<Rightarrow> (real list \<Rightarrow> real) \<Rightarrow> (real list \<Rightarrow> 'i) \<Rightarrow> int \<Rightarrow> int \<Rightarrow> rng \<Rightarrow> ('i \<times> real) list \<times> rng" where
  "run_data_generator x_lim n data_fn input_data_fn max_samples i r =
     (case get_next (data_generator x_lim n data_fn input_data_fn max_samples) i r of
        None \<Rightarrow> ([], r)
      | Some (e, i', r') \<Rightarrow>
          (case run_data_generator x_lim n data_fn input_data_fn max_samples i' r' of
             (es, r'') \<Rightarrow> (e # es, r'')))"
  by pat_completeness auto
termination
  by (relation "measure (\<lambda>(x_lim, n, data_fn, input_data_fn, max_samples, i, r). nat (max_samples - i))")
     (auto simp: data_generator_def split: if_splits prod.splits)

declare run_data_generator.simps [simp del]

text \<open>The \<open>j\<close>-th vector drawn from a random source, \<open>n\<close> components each.\<close>

definition drawn :: "real \<times> real \<Rightarrow> nat \<Rightarrow> rng \<Rightarrow> nat \<Rightarrow> real list" where
  "drawn x_lim n r j = map (\<lambda>k. fst x_lim + (snd x_lim - fst x_lim) * r (j * n + k)) [0..<n]"



section \<open>The model collaborator\<close>

text \<open>
  The model is an object the task is handed and never builds. Its state is its weights
  and what the last \<^verbatim>\<open>compile\<close> call stored. \<^verbatim>\<open>compile\<close> stores its arguments and leaves
  the weights alone.
\<close>

record ('w, 'l) keras_model =
  model_name :: string
  weights :: 'w
  optimizer :: "string option"
  loss :: "'l option"
  metrics :: "'l list"
  run_eagerly :: bool

definition keras_compile ::
  "string \<Rightarrow> 'l \<Rightarrow> 'l list \<Rightarrow> bool \<Rightarrow> ('w, 'l) keras_model \<Rightarrow> ('w, 'l) keras_model" where
  "keras_compile opt loss_fn ms eager m =
     m\<lparr>optimizer := Some opt, loss := Some loss_fn, metrics := ms, run_eagerly := eager\<rparr>"

text \<open>A \<^verbatim>\<open>dict\<close> from metric name to value.\<close>

type_synonym logs = "string \<rightharpoonup> real"

section \<open>SequentialTask\<close>

record ('w, 'l, 'i, 's, 'v) sequential_task =
  name :: string
  model :: "('w, 'l) keras_model"
  model_base_loss :: 'l
  training_dataset :: "(('i \<times> real) list, 's) dataset"
  training_batches :: int
  validation_dataset :: "(('i \<times> real) list, 'v) dataset option"
  validation_batches :: int
  batch_size :: int
  input_data_fn :: "(real list \<Rightarrow> 'i) option"
  data_fn :: "(real list \<Rightarrow> real) option"
  x_lim :: "(real \<times> real) option"
  y_lim :: "(real \<times> real) option"

text \<open>
  \<^verbatim>\<open>compile_model\<close> calls \<^verbatim>\<open>compile\<close> on the model the task holds, with the optimizer
  \<^verbatim>\<open>'ADAM'\<close>, the given loss, \<^verbatim>\<open>metrics=[self.model_base_loss]\<close> and \<^verbatim>\<open>run_eagerly=False\<close>.
\<close>

definition compile_model ::
  "'l \<Rightarrow> ('w, 'l, 'i, 's, 'v, 'z) sequential_task_scheme \<Rightarrow> ('w, 'l, 'i, 's, 'v, 'z) sequential_task_scheme" where
  "compile_model loss_fn self =
     self\<lparr>model := keras_compile ''ADAM'' loss_fn [model_base_loss self] False (model self)\<rparr>"

text \<open>The constructor stores its twelve arguments and compiles with the base loss.\<close>

definition SequentialTask_init ::
  "string \<Rightarrow> ('w, 'l) keras_model \<Rightarrow> 'l \<Rightarrow> (('i \<times> real) list, 's) dataset \<Rightarrow> int \<Rightarrow>
   (('i \<times> real) list, 'v) dataset option \<Rightarrow> int \<Rightarrow> int \<Rightarrow> (real list \<Rightarrow> 'i) option \<Rightarrow>
   (real list \<Rightarrow> real) option \<Rightarrow> (real \<times> real) option \<Rightarrow> (real \<times> real) option \<Rightarrow>
   ('w, 'l, 'i, 's, 'v) sequential_task" where
  "SequentialTask_init nm m base_loss tds tb vds vb bs ifn dfn xl yl =
     compile_model base_loss
       \<lparr>name = nm, model = m, model_base_loss = base_loss,
        training_dataset = tds, training_batches = tb,
        validation_dataset = vds, validation_batches = vb,
        batch_size = bs, input_data_fn = ifn, data_fn = dfn, x_lim = xl, y_lim = yl\<rparr>"

text \<open>
  \<^verbatim>\<open>train_on_task\<close> is one call of the model's \<^verbatim>\<open>fit\<close> with the task's streams and batch
  counts; what \<^verbatim>\<open>fit\<close> returns or raises is the result. \<^verbatim>\<open>fit\<close> is the first argument
  here: it reads the model, pulls from the streams (and so from the random source) and
  gives the trained weights and the history.
\<close>

definition train_on_task ::
  "(('w, 'l) keras_model \<Rightarrow> (('i \<times> real) list, 's) dataset \<Rightarrow> int \<Rightarrow> int \<Rightarrow>
    (('i \<times> real) list, 'v) dataset option \<Rightarrow> int \<Rightarrow> 'cb list \<Rightarrow> rng \<Rightarrow> error + ('w \<times> 'h \<times> rng)) \<Rightarrow>
   ('w, 'l, 'i, 's, 'v, 'z) sequential_task_scheme \<Rightarrow> int \<Rightarrow> 'cb list \<Rightarrow> rng \<Rightarrow>
   error + ('h \<times> ('w, 'l, 'i, 's, 'v, 'z) sequential_task_scheme \<times> rng)" where
  "train_on_task fit self epochs callbacks r =
     (case fit (model self) (training_dataset self) epochs (training_batches self)
             (validation_dataset self) (validation_batches self) callbacks r of
        Inl e \<Rightarrow> Inl e
      | Inr (w, history, r') \<Rightarrow> Inr (history, self\<lparr>model := (model self)\<lparr>weights := w\<rparr>\<rparr>, r'))"

text \<open>
  \<^verbatim>\<open>evaluate_model\<close> returns \<^verbatim>\<open>{}\<close> when there is no validation stream, and otherwise
  the result of the model's \<^verbatim>\<open>evaluate\<close> on the validation stream with
  \<^verbatim>\<open>steps=self.validation_batches\<close>. \<^verbatim>\<open>evaluate\<close> is the first argument here.
\<close>

definition evaluate_model ::
  "(('w, 'l) keras_model \<Rightarrow> (('i \<times> real) list, 'v) dataset \<Rightarrow> int \<Rightarrow> rng \<Rightarrow> error + (logs \<times> rng)) \<Rightarrow>
   ('w, 'l, 'i, 's, 'v, 'z) sequential_task_scheme \<Rightarrow> rng \<Rightarrow> error + (logs \<times> rng)" where
  "evaluate_model evaluate self r =
     (case validation_dataset self of
        None \<Rightarrow> Inr (Map.empty, r)
      | Some v \<Rightarrow> evaluate (model self) v (validation_batches self) r)"

section \<open>FunctionApproximationTask\<close>

record ('w, 'l, 'i) function_approximation_task =
  "('w, 'l, 'i, int \<times> bool, int \<times> bool) sequential_task" +
  model_input_shape :: "int list"
  independent_variables :: nat
  training_samples :: int
  validation_samples :: int

text \<open>
  \<^verbatim>\<open>create_dataset\<close> reads \<^verbatim>\<open>self.batch_size\<close> when it is called and hands the bound
  method \<^verbatim>\<open>self.data_generator\<close> to \<^verbatim>\<open>from_generator\<close>. The generator reads its four
  attributes when a stream is iterated, after the constructor has stored them, and no
  method assigns them again: the values stored are the arguments here.
\<close>

definition create_dataset ::
  "int \<Rightarrow> real \<times> real \<Rightarrow> nat \<Rightarrow> (real list \<Rightarrow> real) \<Rightarrow> (real list \<Rightarrow> 'i) \<Rightarrow> int \<Rightarrow>
   error + (('i \<times> real) list, int \<times> bool) dataset" where
  "create_dataset bs xlim n dfn ifn max_samples =
     (case batch bs (from_generator (data_generator xlim n dfn ifn) max_samples) of
        Inl e \<Rightarrow> Inl e
      | Inr b \<Rightarrow> Inr (repeat b))"

text \<open>
  The constructor sets its own four attributes and \<^verbatim>\<open>self.batch_size\<close>, builds the
  training stream and then the validation stream, and calls the base constructor. That
  call passes no \<^verbatim>\<open>batch_size\<close>, so the base constructor stores its default \<open>0\<close> in
  \<^verbatim>\<open>self.batch_size\<close>; the streams were batched before that. Of the optional base
  arguments that \<^verbatim>\<open>**kwargs\<close> can carry, \<^verbatim>\<open>y_lim\<close> is the last argument here.
\<close>

definition FunctionApproximationTask_init ::
  "string \<Rightarrow> ('w, 'l) keras_model \<Rightarrow> 'l \<Rightarrow> nat \<Rightarrow> int list \<Rightarrow> (real list \<Rightarrow> 'i) \<Rightarrow>
   (real list \<Rightarrow> real) \<Rightarrow> int \<Rightarrow> int \<Rightarrow> int \<Rightarrow> real \<times> real \<Rightarrow> (real \<times> real) option \<Rightarrow>
   error + ('w, 'l, 'i) function_approximation_task" where
  "FunctionApproximationTask_init nm m base_loss n shape ifn dfn tb vb bs xlim yl =
     (case create_dataset bs xlim n dfn ifn (tb * bs) of
        Inl e \<Rightarrow> Inl e
      | Inr tds \<Rightarrow>
          (case create_dataset bs xlim n dfn ifn (vb * bs) of
             Inl e \<Rightarrow> Inl e
           | Inr vds \<Rightarrow>
               Inr (sequential_task.extend
                      (SequentialTask_init nm m base_loss tds tb (Some vds) vb 0
                         (Some ifn) (Some dfn) (Some xlim) yl)
                      (function_approximation_task.fields shape n (tb * bs) (vb * bs)))))"

section \<open>A driver's calls on a task\<close>

text \<open>
  Over its lifetime a task receives the three public calls in any order. A call that
  raises ends the run.
\<close>

datatype ('l, 'cb) operation = Compile 'l | Train int "'cb list" | Evaluate

fun apply_operation ::
  "(('w, 'l) keras_model \<Rightarrow> (('i \<times> real) list, 's) dataset \<Rightarrow> int \<Rightarrow> int \<Rightarrow>
    (('i \<times> real) list, 'v) dataset option \<Rightarrow> int \<Rightarrow> 'cb list \<Rightarrow> rng \<Rightarrow> error + ('w \<times> 'h \<times> rng)) \<Rightarrow>
   (('w, 'l) keras_model \<Rightarrow> (('i \<times> real) list, 'v) dataset \<Rightarrow> int \<Rightarrow> rng \<Rightarrow> error + (logs \<times> rng)) \<Rightarrow>
   ('l, 'cb) operation \<Rightarrow> ('w, 'l, 'i, 's, 'v, 'z) sequential_task_scheme \<times> rng \<Rightarrow>
   error + (('w, 'l, 'i, 's, 'v, 'z) sequential_task_scheme \<times> rng)" where
  "apply_operation fit evaluate (Compile loss_fn) (self, r) = Inr (compile_model loss_fn self, r)"
| "apply_operation fit evaluate (Train epochs callbacks) (self, r) =
     (case train_on_task fit self epochs callbacks r of
        Inl e \<Rightarrow> Inl e
      | Inr (history, self', r') \<Rightarrow> Inr (self', r'))"
| "apply_operation fit evaluate Evaluate (self, r) =
     (case evaluate_model evaluate self r of
        Inl e \<Rightarrow> Inl e
      | Inr (result, r') \<Rightarrow> Inr (self, r'))"


section \<open>A reference model collaborator\<close>

text \<open>
  How Keras handles its input. \<^verbatim>\<open>evaluate(stream, steps)\<close> makes a fresh iterator over the
  stream and runs up to \<open>steps\<close> batches, fewer when the stream ends first. Its logs start
  empty and each batch run overwrites them with the metric values so far, so a call that
  ran no batch returns the empty mapping. The metric arithmetic is the argument
  \<open>batch_logs\<close>.
\<close>

definition keras_evaluate ::
  "(('w, 'l) keras_model \<Rightarrow> ('i \<times> real) list list \<Rightarrow> logs) \<Rightarrow>
   ('w, 'l) keras_model \<Rightarrow> (('i \<times> real) list, 'v) dataset \<Rightarrow> int \<Rightarrow> rng \<Rightarrow> error + (logs \<times> rng)" where
  "keras_evaluate batch_logs m v steps r =
     (case take_from v (nat steps) r of
        (bs, r') \<Rightarrow> Inr (if bs = [] then Map.empty else batch_logs m bs, r'))"

text \<open>
  \<^verbatim>\<open>fit\<close> keeps one iterator over the training stream for the whole call. Each epoch
  pulls up to \<open>steps\<close> batches and takes one optimizer step per batch (the argument
  \<open>train_step\<close>), then evaluates on a fresh iteration of the validation stream when there
  is one. When the training stream ends inside an epoch, training is interrupted: the
  epoch is recorded as far as it got and the history so far is returned, with no error.
  The callbacks given are not asked to stop or change the training.
\<close>

fun keras_fit_epochs ::
  "(('w, 'l) keras_model \<Rightarrow> ('i \<times> real) list \<Rightarrow> 'w) \<Rightarrow>
   (('w, 'l) keras_model \<Rightarrow> ('i \<times> real) list list \<Rightarrow> logs) \<Rightarrow>
   ('w, 'l) keras_model \<Rightarrow> ('s \<Rightarrow> rng \<Rightarrow> (('i \<times> real) list \<times> 's \<times> rng) option) \<Rightarrow> nat \<Rightarrow> nat \<Rightarrow>
   (('i \<times> real) list, 'v) dataset option \<Rightarrow> int \<Rightarrow> 's \<Rightarrow> rng \<Rightarrow> 'w \<times> (logs \<times> logs) list \<times> rng" where
  "keras_fit_epochs train_step batch_logs m nxt 0 steps v vsteps s r = (weights m, [], r)"
| "keras_fit_epochs train_step batch_logs m nxt (Suc e) steps v vsteps s r =
     (case pull nxt steps s r of
        (bs, s', r1) \<Rightarrow>
          let m' = m\<lparr>weights := foldl (\<lambda>w b. train_step (m\<lparr>weights := w\<rparr>) b) (weights m) bs\<rparr>;
              training_logs = (if bs = [] then Map.empty else batch_logs m' bs)
          in case (case v of
                     None \<Rightarrow> (Map.empty, r1)
                   | Some vd \<Rightarrow>
                       (case take_from vd (nat vsteps) r1 of
                          (vbs, r2) \<Rightarrow> (if vbs = [] then Map.empty else batch_logs m' vbs, r2))) of
               (validation_logs, r2) \<Rightarrow>
                 if length bs < steps then (weights m', [(training_logs, validation_logs)], r2)
                 else (case keras_fit_epochs train_step batch_logs m' nxt e steps v vsteps s' r2 of
                         (w, history, r3) \<Rightarrow> (w, (training_logs, validation_logs) # history, r3)))"

definition keras_fit ::
  "(('w, 'l) keras_model \<Rightarrow> ('i \<times> real) list \<Rightarrow> 'w) \<Rightarrow>
   (('w, 'l) keras_model \<Rightarrow> ('i \<times> real) list list \<Rightarrow> logs) \<Rightarrow>
   ('w, 'l) keras_model \<Rightarrow> (('i \<times> real) list, 's) dataset \<Rightarrow> int \<Rightarrow> int \<Rightarrow>
   (('i \<times> real) list, 'v) dataset option \<Rightarrow> int \<Rightarrow> 'cb list \<Rightarrow> rng \<Rightarrow>
   error + ('w \<times> (logs \<times> logs) list \<times> rng)" where
  "keras_fit train_step batch_logs m d epochs steps v vsteps callbacks r =
     Inr (keras_fit_epochs train_step batch_logs m (get_next d) (nat epochs) (nat steps)
            v vsteps (make_iterator d) r)"

text \<open>A stream over data held in memory: it draws nothing from the random source.\<close>

definition from_tensor_slices :: "'e list \<Rightarrow> ('e, nat) dataset" where
  "from_tensor_slices xs =
     \<lparr>make_iterator = 0,
      get_next = (\<lambda>k r. if k < length xs then Some (xs ! k, Suc k, r) else None)\<rparr>"

section \<open>Example inputs\<close>

text \<open>A random source whose draws are all different: \<open>1/2, 1/3, 1/4, \<dots>\<close>\<close>

definition unit_draws :: rng where
  "unit_draws k = 1 / (real k + 2)"

text \<open>The target \<^verbatim>\<open>lambda x: 2*x[0] + 1\<close> of one independent variable.\<close>

definition line_fn :: "real list \<Rightarrow> real" where
  "line_fn x = 2 * (x ! 0) + 1"

text \<open>
  A model of one weight that predicts the weight for every input. A training step moves
  the weight halfway to the mean target of the batch; the logs give the mean squared
  error under the names \<^verbatim>\<open>loss\<close> and of each compiled metric.
\<close>

definition example_model :: "(real, string) keras_model" where
  "example_model =
     \<lparr>model_name = ''model'', weights = 0, optimizer = None, loss = None, metrics = [],
      run_eagerly = False\<rparr>"

definition mean_step :: "(real, string) keras_model \<Rightarrow> (real list \<times> real) list \<Rightarrow> real" where
  "mean_step m b = weights m + (sum_list (map snd b) / real (length b) - weights m) / 2"

definition squared_error_logs :: "(real, string) keras_model \<Rightarrow> (real list \<times> real) list list \<Rightarrow> logs" where
  "squared_error_logs m bs =
     (\<lambda>k. if k = ''loss'' \<or> k \<in> set (metrics m)
          then Some (sum_list (map (\<lambda>p. (snd p - weights m)\<^sup>2) (concat bs)) / real (length (concat bs)))
          else None)"



definition short_task :: "(real, string, real list, nat, nat) sequential_task" where
  "short_task =
     SequentialTask_init ''Task 2'' example_model ''mse'' (from_tensor_slices [[([0], 1)]]) 2
       None 0 1 None None None None"

text \<open>A task whose streams are held in memory, with matching batch counts.\<close>

definition memory_task :: "(real, string, real list, nat, nat) sequential_task" where
  "memory_task =
     SequentialTask_init ''Task 3'' example_model ''mse''
       (from_tensor_slices [[([0], 1)], [([1], 3)]]) 2
       (Some (from_tensor_slices [[([2], 5)]])) 1 1 None None None None"

section \<open>Properties of the data generator\<close>

lemma drawn_shift: "drawn xl n (\<lambda>k. r (k + n)) j = drawn xl n r (Suc j)"
  by (simp add: drawn_def add.commute add.left_commute)

lemma uniform_drawn:
  "np_random_uniform (fst xl) (snd xl) n r = (drawn xl n r 0, \<lambda>k. r (k + n))"
  by (simp add: np_random_uniform_def drawn_def)

lemma data_generator_step:
  "get_next (data_generator xl n dfn ifn max_samples) i r =
     (if i < max_samples
      then Some ((ifn (drawn xl n r 0), dfn (drawn xl n r 0)), i + 1, \<lambda>k. r (k + n))
      else None)"
  by (simp add: data_generator_def uniform_drawn)

lemma run_data_generator_from:
  "run_data_generator xl n dfn ifn max_samples i r =
     (map (\<lambda>j. (ifn (drawn xl n r j), dfn (drawn xl n r j))) [0..<nat (max_samples - i)],
      \<lambda>k. r (k + nat (max_samples - i) * n))"
proof (induction xl n dfn ifn max_samples i r rule: run_data_generator.induct)
  case (1 xl n dfn ifn max_samples i r)
  show ?case
  proof (cases "i < max_samples")
    case False
    then show ?thesis
      by (subst run_data_generator.simps) (simp add: data_generator_step)
  next
    case True
    have step: "get_next (data_generator xl n dfn ifn max_samples) i r =
      Some ((ifn (drawn xl n r 0), dfn (drawn xl n r 0)), i + 1, \<lambda>k. r (k + n))"
      using True by (simp add: data_generator_step)
    have len: "nat (max_samples - i) = Suc (nat (max_samples - (i + 1)))"
      using True by simp
    have ih: "run_data_generator xl n dfn ifn max_samples (i + 1) (\<lambda>k. r (k + n)) =
      (map (\<lambda>j. (ifn (drawn xl n r (Suc j)), dfn (drawn xl n r (Suc j))))
         [0..<nat (max_samples - (i + 1))],
       \<lambda>k. r (k + (nat (max_samples - (i + 1)) * n + n)))"
      using "1.IH" [OF step refl refl] by (simp add: drawn_shift add.assoc)
    show ?thesis
      apply (subst run_data_generator.simps)
      apply (simp only: step option.case prod.case ih len)
      apply (simp add: upt_conv_Cons del: upt_Suc)
      apply (simp add: map_Suc_upt [symmetric] add.commute del: upt_Suc)
      done
  qed
qed




section \<open>Properties of the streams\<close>





lemma generator_end:
  "max_samples \<le> i \<Longrightarrow> get_next (data_generator xl n dfn ifn max_samples) i r = None"
  by (simp add: data_generator_step)

lemma get_next_from_generator [simp]: "get_next (from_generator g a) = get_next (g a)"
  by (simp add: from_generator_def)

lemma make_iterator_from_generator [simp]: "make_iterator (from_generator g a) = make_iterator (g a)"
  by (simp add: from_generator_def)


lemma batch_end:
  assumes "0 < bs" and "max_samples \<le> i"
    and "batch bs (from_generator (data_generator xl n dfn ifn) max_samples) = Inr B"
  shows "get_next B i r = None"
proof -
  obtain k where k: "nat bs = Suc k" using assms(1) by (cases "nat bs") auto
  show ?thesis using assms generator_end [OF assms(2), of xl n dfn ifn r]
    by (auto simp: batch_def k split: if_splits)
qed

lemma batch_make_iterator:
  "batch bs (from_generator (data_generator xl n dfn ifn) max_samples) = Inr B \<Longrightarrow> make_iterator B = 0"
  by (auto simp: batch_def data_generator_def split: if_splits)



lemma create_dataset_Inr:
  "create_dataset bs xl n dfn ifn max_samples = Inr d \<Longrightarrow>
   0 < bs \<and> (\<exists>B. batch bs (from_generator (data_generator xl n dfn ifn) max_samples) = Inr B \<and> d = repeat B)"
  by (auto simp: create_dataset_def batch_def split: if_splits sum.splits)


lemma create_dataset_empty:
  assumes "max_samples \<le> 0" and d: "create_dataset bs xl n dfn ifn max_samples = Inr d"
  shows "take_from d k r = ([], r)"
proof -
  from create_dataset_Inr [OF d] obtain B where bs: "0 < bs"
    and B: "batch bs (from_generator (data_generator xl n dfn ifn) max_samples) = Inr B"
    and dB: "d = repeat B" by blast
  have "get_next B 0 r = None" using batch_end [OF bs _ B, of 0 r] assms(1) by simp
  then have "get_next (repeat B) (make_iterator (repeat B)) r = None"
    using batch_make_iterator [OF B] by (simp add: repeat_def)
  then show ?thesis by (cases k) (simp_all add: take_from_def dB)
qed

lemma create_dataset_rejects:
  "bs \<le> 0 \<Longrightarrow> create_dataset bs xl n dfn ifn max_samples = Inl InvalidArgumentError"
  by (simp add: create_dataset_def batch_def)

lemma create_dataset_accepts:
  "0 < bs \<Longrightarrow> \<exists>d. create_dataset bs xl n dfn ifn max_samples = Inr d"
  by (simp add: create_dataset_def batch_def)


lemma init_Inr:
  assumes "FunctionApproximationTask_init nm m base_loss n shape ifn dfn tb vb bs xl yl = Inr t"
  shows "\<exists>tds vds. create_dataset bs xl n dfn ifn (tb * bs) = Inr tds
     \<and> create_dataset bs xl n dfn ifn (vb * bs) = Inr vds
     \<and> t = sequential_task.extend
              (SequentialTask_init nm m base_loss tds tb (Some vds) vb 0 (Some ifn) (Some dfn) (Some xl) yl)
              (function_approximation_task.fields shape n (tb * bs) (vb * bs))"
  using assms by (auto simp: FunctionApproximationTask_init_def split: sum.splits)

lemmas task_defs = sequential_task.defs function_approximation_task.defs
  SequentialTask_init_def compile_model_def

lemma init_fields:
  assumes "FunctionApproximationTask_init nm m base_loss n shape ifn dfn tb vb bs xl yl = Inr t"
  shows "training_batches t = tb" and "validation_batches t = vb"
    and "training_samples t = tb * bs" and "validation_samples t = vb * bs"
    and "model_base_loss t = base_loss"
    and "model t = keras_compile ''ADAM'' base_loss [base_loss] False m"
    and "batch_size t = 0"
proof -
  from init_Inr [OF assms] obtain tds vds where
    t: "t = sequential_task.extend
              (SequentialTask_init nm m base_loss tds tb (Some vds) vb 0 (Some ifn) (Some dfn) (Some xl) yl)
              (function_approximation_task.fields shape n (tb * bs) (vb * bs))"
    by blast
  show "training_batches t = tb" and "validation_batches t = vb"
    and "training_samples t = tb * bs" and "validation_samples t = vb * bs"
    and "model_base_loss t = base_loss"
    and "model t = keras_compile ''ADAM'' base_loss [base_loss] False m"
    and "batch_size t = 0"
    by (simp_all add: t task_defs)
qed

lemma init_streams:
  assumes "FunctionApproximationTask_init nm m base_loss n shape ifn dfn tb vb bs xl yl = Inr t"
  shows "create_dataset bs xl n dfn ifn (tb * bs) = Inr (training_dataset t)"
    and "\<exists>v. validation_dataset t = Some v \<and> create_dataset bs xl n dfn ifn (vb * bs) = Inr v"
    and "0 < bs"
proof -
  from init_Inr [OF assms] obtain tds vds where
    tds: "create_dataset bs xl n dfn ifn (tb * bs) = Inr tds"
    and vds: "create_dataset bs xl n dfn ifn (vb * bs) = Inr vds"
    and t: "t = sequential_task.extend
              (SequentialTask_init nm m base_loss tds tb (Some vds) vb 0 (Some ifn) (Some dfn) (Some xl) yl)
              (function_approximation_task.fields shape n (tb * bs) (vb * bs))"
    by blast
  show "create_dataset bs xl n dfn ifn (tb * bs) = Inr (training_dataset t)"
    using tds by (simp add: t task_defs)
  show "\<exists>v. validation_dataset t = Some v \<and> create_dataset bs xl n dfn ifn (vb * bs) = Inr v"
    using vds by (simp add: t task_defs)
  show "0 < bs" using create_dataset_Inr [OF tds] by simp
qed

lemma init_accepts:
  "0 < bs \<Longrightarrow> \<exists>t. FunctionApproximationTask_init nm m base_loss n shape ifn dfn tb vb bs xl yl = Inr t"
  by (simp add: FunctionApproximationTask_init_def create_dataset_def batch_def)

section \<open>Zero sizes\<close>

text \<open>
  With \<open>batch_size = 0\<close> the constructor does not produce a stream: the batching step
  rejects the size.
\<close>

theorem zero_batch_size_counterexample:
  "FunctionApproximationTask_init ''Task 1'' example_model ''mse'' 1 [1] id line_fn 1 1 0 (- 1, 1) None
     = Inl InvalidArgumentError"
  by (simp add: FunctionApproximationTask_init_def create_dataset_def batch_def)

text \<open>
  C9, as the code has it. A batch size that is not positive is rejected when the stream is
  built and the constructor fails with \<open>InvalidArgumentError\<close>. With a positive batch size
  and \<open>training_batches = 0\<close> the constructor succeeds, \<open>training_samples\<close> is \<open>0\<close>, and
  the training stream is empty: asked for any number of batches it hands out none and
  draws nothing. The generator run with \<open>max_samples = 0\<close> ends at once. Every function
  involved is total and none divides.
\<close>

theorem zero_length_stream:
  "(bs \<le> 0 \<longrightarrow>
      FunctionApproximationTask_init nm m base_loss n shape ifn dfn tb vb bs xl yl = Inl InvalidArgumentError)
   \<and> (0 < bs \<longrightarrow>
      (\<exists>t. FunctionApproximationTask_init nm m base_loss n shape ifn dfn 0 vb bs xl yl = Inr t
         \<and> training_samples t = 0
         \<and> (\<forall>k r. take_from (training_dataset t) k r = ([], r))))
   \<and> run_data_generator xl n dfn ifn 0 0 r = ([], r)"
proof (intro conjI impI)
  assume "bs \<le> 0"
  then show "FunctionApproximationTask_init nm m base_loss n shape ifn dfn tb vb bs xl yl = Inl InvalidArgumentError"
    by (simp add: FunctionApproximationTask_init_def create_dataset_rejects)
next
  assume bs: "0 < bs"
  from init_accepts [OF bs, of nm m base_loss n shape ifn dfn 0 vb xl yl] obtain t
    where t: "FunctionApproximationTask_init nm m base_loss n shape ifn dfn 0 vb bs xl yl = Inr t"
    by blast
  have "take_from (training_dataset t) k r = ([], r)" for k r
    using create_dataset_empty [OF _ init_streams(1) [OF t]] by simp
  moreover have "training_samples t = 0"
    using init_fields(3) [OF t] by simp
  ultimately show "\<exists>t. FunctionApproximationTask_init nm m base_loss n shape ifn dfn 0 vb bs xl yl = Inr t
         \<and> training_samples t = 0
         \<and> (\<forall>k r. take_from (training_dataset t) k r = ([], r))"
    using t by blast
next
  show "run_data_generator xl n dfn ifn 0 0 r = ([], r)"
    by (simp add: run_data_generator_from)
qed



theorem zero_length_stream_witness:
  "(0::int) < 1
   \<and> training_samples (projr (FunctionApproximationTask_init ''Task 1'' example_model ''mse'' 1 [1] id line_fn
        0 1 1 (- 1, 1) None)) = 0
   \<and> take_from (training_dataset (projr (FunctionApproximationTask_init ''Task 1'' example_model ''mse'' 1 [1]
        id line_fn 0 1 1 (- 1, 1) None))) 3 unit_draws = ([], unit_draws)
   \<and> FunctionApproximationTask_init ''Task 1'' example_model ''mse'' 1 [1] id line_fn 1 1 0 (- 1, 1) None
        = Inl InvalidArgumentError"
  using zero_length_stream [of 1 "''Task 1''" example_model "''mse''" 1 "[1]" id line_fn 0 1 "(- 1, 1)" None unit_draws]
    zero_length_stream [of 0 "''Task 1''" example_model "''mse''" 1 "[1]" id line_fn 1 1 "(- 1, 1)" None unit_draws]
  by auto

section \<open>Epochs of the repeated stream\<close>






section \<open>Construction of a FunctionApproximationTask\<close>




section \<open>The operations\<close>

text \<open>
  C2. \<open>compile_model\<close> keeps the model it was given: the weights and the name are those
  of the model before the call, and the model after the call is the model before it with
  the four compile settings replaced, the loss by the given one.
\<close>

theorem compile_model_keeps_weights:
  "weights (model (compile_model loss_fn self)) = weights (model self)
   \<and> model_name (model (compile_model loss_fn self)) = model_name (model self)
   \<and> loss (model (compile_model loss_fn self)) = Some loss_fn
   \<and> model (compile_model loss_fn self) =
       (model self)\<lparr>optimizer := Some ''ADAM'', loss := Some loss_fn,
                    metrics := [model_base_loss self], run_eagerly := False\<rparr>"
  by (simp add: compile_model_def keras_compile_def)

lemma apply_operation_frame:
  assumes "apply_operation fit evaluate c (self, r) = Inr (self', r')"
  shows "self'\<lparr>model := model self\<rparr> = self"
    and "metrics (model self) = [model_base_loss self] \<Longrightarrow> metrics (model self') = [model_base_loss self]"
  using assms
  by (cases c; auto simp: compile_model_def keras_compile_def train_on_task_def
      split: sum.splits prod.splits)+

text \<open>
  C10. Each of the three operations leaves the task as it was apart from its model:
  putting the old model back gives the old task, so \<open>name\<close>, \<open>model_base_loss\<close>,
  \<open>training_dataset\<close>, \<open>training_batches\<close>, \<open>validation_dataset\<close>,
  \<open>validation_batches\<close>, \<open>batch_size\<close>, \<open>input_data_fn\<close>, \<open>data_fn\<close>, \<open>x_lim\<close> and
  \<open>y_lim\<close> are what they were.
\<close>

theorem operations_keep_attributes:
  "(compile_model loss_fn self)\<lparr>model := model self\<rparr> = self
   \<and> (train_on_task fit self epochs callbacks r = Inr (history, self', r') \<longrightarrow>
        self'\<lparr>model := model self\<rparr> = self)
   \<and> (apply_operation fit evaluate c (self, r) = Inr (self'', r'') \<longrightarrow>
        self''\<lparr>model := model self\<rparr> = self
        \<and> name self'' = name self \<and> model_base_loss self'' = model_base_loss self
        \<and> training_dataset self'' = training_dataset self
        \<and> training_batches self'' = training_batches self
        \<and> validation_dataset self'' = validation_dataset self
        \<and> validation_batches self'' = validation_batches self
        \<and> batch_size self'' = batch_size self
        \<and> input_data_fn self'' = input_data_fn self \<and> data_fn self'' = data_fn self
        \<and> x_lim self'' = x_lim self \<and> y_lim self'' = y_lim self)"
proof (intro conjI impI)
  show "(compile_model loss_fn self)\<lparr>model := model self\<rparr> = self"
    by (simp add: compile_model_def)
next
  assume "train_on_task fit self epochs callbacks r = Inr (history, self', r')"
  then show "self'\<lparr>model := model self\<rparr> = self"
    by (auto simp: train_on_task_def split: sum.splits prod.splits)
next
  assume a: "apply_operation fit evaluate c (self, r) = Inr (self'', r'')"
  have e: "self''\<lparr>model := model self\<rparr> = self" using apply_operation_frame(1) [OF a] .
  show "self''\<lparr>model := model self\<rparr> = self" by (rule e)
  show "name self'' = name self" using arg_cong [OF e, of name] by simp
  show "model_base_loss self'' = model_base_loss self" using arg_cong [OF e, of model_base_loss] by simp
  show "training_dataset self'' = training_dataset self" using arg_cong [OF e, of training_dataset] by simp
  show "training_batches self'' = training_batches self" using arg_cong [OF e, of training_batches] by simp
  show "validation_dataset self'' = validation_dataset self" using arg_cong [OF e, of validation_dataset] by simp
  show "validation_batches self'' = validation_batches self" using arg_cong [OF e, of validation_batches] by simp
  show "batch_size self'' = batch_size self" using arg_cong [OF e, of batch_size] by simp
  show "input_data_fn self'' = input_data_fn self" using arg_cong [OF e, of input_data_fn] by simp
  show "data_fn self'' = data_fn self" using arg_cong [OF e, of data_fn] by simp
  show "x_lim self'' = x_lim self" using arg_cong [OF e, of x_lim] by simp
  show "y_lim self'' = y_lim self" using arg_cong [OF e, of y_lim] by simp
qed




section \<open>The reference collaborator returns\<close>

lemma keras_operation_returns:
  "apply_operation (keras_fit ts bl) (keras_evaluate bl') c st =
     Inr (projr (apply_operation (keras_fit ts bl) (keras_evaluate bl') c st))"
  by (cases c; cases st)
     (auto simp: train_on_task_def keras_fit_def evaluate_model_def keras_evaluate_def
       split: prod.splits option.splits)




theorem operations_keep_attributes_witness:
  "training_batches (fst (projr (apply_operation (keras_fit mean_step squared_error_logs)
       (keras_evaluate squared_error_logs) (Train 1 ([] :: unit list)) (memory_task, unit_draws)))) = 2
   \<and> name (fst (projr (apply_operation (keras_fit mean_step squared_error_logs)
       (keras_evaluate squared_error_logs) (Train 1 ([] :: unit list)) (memory_task, unit_draws)))) = ''Task 3''"
proof -
  let ?run = "apply_operation (keras_fit mean_step squared_error_logs)
       (keras_evaluate squared_error_logs) (Train 1 ([] :: unit list)) (memory_task, unit_draws)"
  have r: "?run = Inr (fst (projr ?run), snd (projr ?run))"
    using keras_operation_returns [of mean_step squared_error_logs squared_error_logs
        "Train 1 ([] :: unit list)" "(memory_task, unit_draws)"]
    by simp
  have t: "train_on_task (keras_fit mean_step squared_error_logs) memory_task 1 ([] :: unit list) unit_draws =
      Inr (fst (projr (train_on_task (keras_fit mean_step squared_error_logs) memory_task 1 ([] :: unit list) unit_draws)),
           fst (snd (projr (train_on_task (keras_fit mean_step squared_error_logs) memory_task 1 ([] :: unit list) unit_draws))),
           snd (snd (projr (train_on_task (keras_fit mean_step squared_error_logs) memory_task 1 ([] :: unit list) unit_draws))))"
    by (simp add: train_on_task_def keras_fit_def split: prod.splits)
  from operations_keep_attributes [where self = memory_task and fit = "keras_fit mean_step squared_error_logs"
      and evaluate = "keras_evaluate squared_error_logs" and c = "Train 1 ([] :: unit list)"
      and r = unit_draws and self'' = "fst (projr ?run)" and r'' = "snd (projr ?run)"
      and loss_fn = "''mse''" and epochs = 1 and callbacks = "[] :: unit list"
      and history = "fst (projr (train_on_task (keras_fit mean_step squared_error_logs) memory_task 1 ([] :: unit list) unit_draws))"
      and self' = "fst (snd (projr (train_on_task (keras_fit mean_step squared_error_logs) memory_task 1 ([] :: unit list) unit_draws)))"
      and r' = "snd (snd (projr (train_on_task (keras_fit mean_step squared_error_logs) memory_task 1 ([] :: unit list) unit_draws)))"]
    r t
  show ?thesis by (simp add: memory_task_def SequentialTask_init_def compile_model_def)
qed

section \<open>Training\<close>



lemma tensor_slices_pull:
  "\<exists>s'. pull (get_next (from_tensor_slices xs)) n k r = (take n (drop k xs), s', r)"
proof (induction n arbitrary: k)
  case 0
  show ?case by simp
next
  case (Suc n)
  show ?case
  proof (cases "k < length xs")
    case True
    then have g: "get_next (from_tensor_slices xs) k r = Some (xs ! k, Suc k, r)"
      by (simp add: from_tensor_slices_def)
    have d: "drop k xs = xs ! k # drop (Suc k) xs" using True by (simp add: Cons_nth_drop_Suc)
    from Suc.IH [of "Suc k"] obtain s' where
      "pull (get_next (from_tensor_slices xs)) n (Suc k) r = (take n (drop (Suc k) xs), s', r)"
      by blast
    then show ?thesis by (simp add: g d)
  next
    case False
    then have g: "get_next (from_tensor_slices xs) k r = None"
      by (simp add: from_tensor_slices_def)
    show ?thesis using False by (simp add: g)
  qed
qed

lemma tensor_slices_make_iterator [simp]: "make_iterator (from_tensor_slices xs) = 0"
  by (simp add: from_tensor_slices_def)

lemma tensor_slices_take_from: "take_from (from_tensor_slices xs) n r = (take n xs, r)"
proof -
  from tensor_slices_pull [of xs n 0 r] obtain s' where
    "pull (get_next (from_tensor_slices xs)) n 0 r = (take n xs, s', r)" by auto
  then show ?thesis by (simp add: take_from_def)
qed

text \<open>
  One batch in memory, two batches per epoch asked for: training returns, with a history
  of the one epoch cut short, and raises nothing.
\<close>

lemma short_task_fields:
  "training_batches short_task = 2"
  "training_dataset short_task = from_tensor_slices [[([0], 1)]]"
  "validation_dataset short_task = None"
  "validation_batches short_task = 0"
  by (simp_all add: short_task_def SequentialTask_init_def compile_model_def)

lemma short_task_history:
  "length (fst (snd (keras_fit_epochs mean_step squared_error_logs (model short_task)
      (get_next (from_tensor_slices [[([0 :: real], 1 :: real)]])) (Suc 0) 2 (None :: ((real list \<times> real) list, nat) dataset option) 0 0 unit_draws))) = 1"
proof -
  from tensor_slices_pull [of "[[([0 :: real], 1 :: real)]]" 2 0 unit_draws] obtain s' where
    p: "pull (get_next (from_tensor_slices [[([0 :: real], 1 :: real)]])) 2 0 unit_draws =
      ([[([0], 1)]], s', unit_draws)"
    by auto
  show ?thesis by (simp add: p Let_def)
qed

theorem train_short_stream_counterexample:
  "training_batches short_task = 2
   \<and> fst (take_from (training_dataset short_task) 2 unit_draws) = [[([0], 1)]]
   \<and> \<not> isl (train_on_task (keras_fit mean_step squared_error_logs) short_task 1 ([] :: unit list) unit_draws)
   \<and> length (fst (projr (train_on_task (keras_fit mean_step squared_error_logs) short_task 1
        ([] :: unit list) unit_draws))) = 1"
proof -
  let ?X = "keras_fit_epochs mean_step squared_error_logs (model short_task)
      (get_next (from_tensor_slices [[([0 :: real], 1 :: real)]])) (Suc 0) 2 (None :: ((real list \<times> real) list, nat) dataset option) 0 0 unit_draws"
  have f: "train_on_task (keras_fit mean_step squared_error_logs) short_task 1 ([] :: unit list) unit_draws =
      Inr (fst (snd ?X), short_task\<lparr>model := (model short_task)\<lparr>weights := fst ?X\<rparr>\<rparr>, snd (snd ?X))"
    by (simp add: train_on_task_def keras_fit_def short_task_fields case_prod_beta
        del: keras_fit_epochs.simps)
  have t: "fst (take_from (training_dataset short_task) 2 unit_draws) = [[([0], 1)]]"
    by (simp add: short_task_fields tensor_slices_take_from)
  show ?thesis unfolding f using short_task_history t short_task_fields(1)
    by (simp del: keras_fit_epochs.simps)
qed

text \<open>
  C4, as the code has it. \<open>train_on_task\<close> makes no check of the stream and has no error
  of its own: it raises exactly when the model's \<open>fit\<close> raises, with that error, and
  when \<open>fit\<close> returns it returns the history \<open>fit\<close> gave, the task holding the trained
  weights.
\<close>

theorem train_forwards_to_fit:
  "(train_on_task fit self epochs callbacks r = Inl e \<longleftrightarrow>
      fit (model self) (training_dataset self) epochs (training_batches self)
        (validation_dataset self) (validation_batches self) callbacks r = Inl e)
   \<and> (fit (model self) (training_dataset self) epochs (training_batches self)
        (validation_dataset self) (validation_batches self) callbacks r = Inr (w, history, r') \<longrightarrow>
      train_on_task fit self epochs callbacks r =
        Inr (history, self\<lparr>model := (model self)\<lparr>weights := w\<rparr>\<rparr>, r'))"
  by (auto simp: train_on_task_def split: sum.splits)

lemma short_task_weights:
  "fst (keras_fit_epochs mean_step squared_error_logs (model short_task)
      (get_next (from_tensor_slices [[([0 :: real], 1 :: real)]])) (Suc 0) 2 (None :: ((real list \<times> real) list, nat) dataset option) 0 0 unit_draws) = 1 / 2"
proof -
  from tensor_slices_pull [of "[[([0 :: real], 1 :: real)]]" 2 0 unit_draws] obtain s' where
    p: "pull (get_next (from_tensor_slices [[([0 :: real], 1 :: real)]])) 2 0 unit_draws =
      ([[([0], 1)]], s', unit_draws)"
    by auto
  have w: "weights (model short_task) = 0"
    by (simp add: short_task_def SequentialTask_init_def compile_model_def keras_compile_def
        example_model_def)
  show ?thesis by (simp add: p Let_def mean_step_def w)
qed

theorem train_forwards_to_fit_witness:
  "train_on_task (keras_fit mean_step squared_error_logs) short_task 1 ([] :: unit list) unit_draws
     \<noteq> Inl InvalidArgumentError
   \<and> weights (model (fst (snd (projr (train_on_task (keras_fit mean_step squared_error_logs) short_task 1
        ([] :: unit list) unit_draws))))) = 1 / 2"
proof -
  let ?X = "keras_fit_epochs mean_step squared_error_logs (model short_task)
      (get_next (from_tensor_slices [[([0 :: real], 1 :: real)]])) (Suc 0) 2 (None :: ((real list \<times> real) list, nat) dataset option) 0 0 unit_draws"
  have f: "keras_fit mean_step squared_error_logs (model short_task) (training_dataset short_task) 1
      (training_batches short_task) (validation_dataset short_task) (validation_batches short_task)
      ([] :: unit list) unit_draws = Inr (fst ?X, fst (snd ?X), snd (snd ?X))"
    by (simp add: keras_fit_def short_task_fields del: keras_fit_epochs.simps)
  from train_forwards_to_fit [where fit = "keras_fit mean_step squared_error_logs" and self = short_task
      and epochs = 1 and callbacks = "[] :: unit list" and r = unit_draws and e = InvalidArgumentError
      and w = "fst ?X" and history = "fst (snd ?X)" and r' = "snd (snd ?X)"] f
  have "train_on_task (keras_fit mean_step squared_error_logs) short_task 1 ([] :: unit list) unit_draws =
      Inr (fst (snd ?X), short_task\<lparr>model := (model short_task)\<lparr>weights := fst ?X\<rparr>\<rparr>, snd (snd ?X))"
    by blast
  then show ?thesis using short_task_weights by (simp del: keras_fit_epochs.simps)
qed

section \<open>Evaluation\<close>







section \<open>Evaluating twice\<close>






end
